theory Spec2Isabelle
  imports Main "HOL-Library.Sublist"
begin

section \<open>Data of \<^verbatim>\<open>scripts/send_emails.py\<close>\<close>

text \<open>
  A spreadsheet row is the list of its cells. A professor is the dictionary built in
  \<^verbatim>\<open>get_professor_data\<close>; the status is the dictionary kept in
  \<^verbatim>\<open>data/email_status.json\<close>, with the integer \<^verbatim>\<open>last_index\<close> (a Python
  integer, so possibly negative in a file edited by hand) and the list
  \<^verbatim>\<open>sent_emails\<close>.
\<close>

type_synonym row = "string list"

record professor =
  name :: string
  research_domain :: string
  email :: string
  university :: string

record status =
  last_index :: int
  sent_emails :: "string list"

datatype error = JSONDecodeError | IndexError | FileNotFoundError | GenerationError | DeliveryError

definition EMAILS_PER_DAY :: int where
  "EMAILS_PER_DAY = 10"

subsection \<open>The status file\<close>

text \<open>
  The file \<^verbatim>\<open>data/email_status.json\<close> is seen through what the script does with it:
  the directory \<^verbatim>\<open>data\<close> may be missing (\<open>NoDir\<close>), the directory may exist without
  the file (\<open>NoFile\<close>), or the file exists (\<open>Holds\<close>). The text of an existing file
  is either one that \<^verbatim>\<open>json.load\<close> rejects (\<open>Unparsable\<close>; the empty file left by
  \<^verbatim>\<open>open(..., 'w')\<close> is such a text), or the JSON object of a status with an integer
  \<^verbatim>\<open>last_index\<close> and a list of strings \<^verbatim>\<open>sent_emails\<close> (\<open>Document\<close>), which is
  what \<^verbatim>\<open>json.dump\<close> writes. JSON texts of any other shape are outside the model.
\<close>

datatype content = Unparsable | Document status

datatype storage = NoDir | NoFile | Holds content

fun path_exists :: "storage \<Rightarrow> bool" where
  "path_exists (Holds c) = True"
| "path_exists NoDir = False"
| "path_exists NoFile = False"

fun json_load :: "storage \<Rightarrow> error + status" where
  "json_load (Holds (Document st)) = Inr st"
| "json_load (Holds Unparsable) = Inl JSONDecodeError"
| "json_load NoDir = Inl FileNotFoundError"
| "json_load NoFile = Inl FileNotFoundError"

definition load_email_status :: "storage \<Rightarrow> error + status" where
  "load_email_status fs =
     (if path_exists fs then json_load fs
      else Inr \<lparr>last_index = 0, sent_emails = []\<rparr>)"

text \<open>
  \<^verbatim>\<open>save_email_status\<close> is three statements: \<^verbatim>\<open>os.makedirs(..., exist_ok=True)\<close>,
  \<^verbatim>\<open>open(STATUS_FILE, 'w')\<close>, which truncates the file in place and fails when the
  directory is missing, and \<^verbatim>\<open>json.dump\<close> into the open file.
  \<open>save_email_status_steps\<close> lists the storage after each statement that completed.
\<close>

fun os_makedirs :: "storage \<Rightarrow> storage" where
  "os_makedirs NoDir = NoFile"
| "os_makedirs NoFile = NoFile"
| "os_makedirs (Holds c) = Holds c"

fun open_w :: "storage \<Rightarrow> error + storage" where
  "open_w NoDir = Inl FileNotFoundError"
| "open_w NoFile = Inr (Holds Unparsable)"
| "open_w (Holds c) = Inr (Holds Unparsable)"

fun json_dump :: "status \<Rightarrow> storage \<Rightarrow> storage" where
  "json_dump st fs = Holds (Document st)"

definition save_email_status_steps :: "storage \<Rightarrow> status \<Rightarrow> storage list \<times> error option" where
  "save_email_status_steps fs st =
     (let fs1 = os_makedirs fs in
      case open_w fs1 of
        Inl e \<Rightarrow> ([fs1], Some e)
      | Inr fs2 \<Rightarrow> ([fs1, fs2, json_dump st fs2], None))"

definition save_email_status :: "storage \<Rightarrow> status \<Rightarrow> error + storage" where
  "save_email_status fs st =
     (case open_w (os_makedirs fs) of
        Inl e \<Rightarrow> Inl e
      | Inr fs2 \<Rightarrow> Inr (json_dump st fs2))"

subsection \<open>The contact source\<close>

text \<open>
  \<^verbatim>\<open>get_professor_data\<close> on the rows the Sheets API returned (\<^verbatim>\<open>values\<close>): the
  loop appends a professor for every row with at least three cells.
\<close>

fun get_professor_data :: "row list \<Rightarrow> professor list" where
  "get_professor_data [] = []"
| "get_professor_data (row # values) =
     (if length row \<ge> 3
      then \<lparr>name = row ! 0, research_domain = row ! 1, email = row ! 2,
            university = (if length row > 3 then row ! 3 else ''Unknown'')\<rparr>
           # get_professor_data values
      else get_professor_data values)"

subsection \<open>The external collaborators\<close>

text \<open>
  The language model and the mail transport are outside the program. A \<open>world\<close> fixes
  what they answer during one run: \<open>generator\<close> is the subject and body parsed from the
  model's reply (\<open>None\<close> when the API call, \<^verbatim>\<open>json.loads\<close> or the lookup of the two
  fields raises), \<open>smtp\<close> tells whether building and sending the message completes, and
  \<open>cv_head\<close> is the decoded head of the CV file (\<open>None\<close> when reading it raises). The
  first argument of \<open>generator\<close> and \<open>smtp\<close> is the loop position of the call, since two
  calls with the same arguments need not have the same outcome.
\<close>

record world =
  cv_head :: "string option"
  generator :: "int \<Rightarrow> string \<Rightarrow> string \<Rightarrow> string \<Rightarrow> string \<Rightarrow> (string \<times> string) option"
  smtp :: "int \<Rightarrow> string \<Rightarrow> string \<Rightarrow> string \<Rightarrow> bool"

definition read_cv :: "world \<Rightarrow> string" where
  "read_cv w =
     (case cv_head w of
        Some text \<Rightarrow> text
      | None \<Rightarrow> ''CV could not be read. Please ensure it exists at the specified path.'')"

definition generate_email_content ::
  "world \<Rightarrow> int \<Rightarrow> professor \<Rightarrow> string \<Rightarrow> error + (string \<times> string)" where
  "generate_email_content w i p cv_content =
     (case generator w i (name p) (research_domain p) (university p) (take 500 cv_content) of
        None \<Rightarrow> Inl GenerationError
      | Some (subject, body) \<Rightarrow> Inr (subject, body))"

definition send_email :: "world \<Rightarrow> int \<Rightarrow> professor \<Rightarrow> string \<Rightarrow> string \<Rightarrow> error + bool" where
  "send_email w i p subject body =
     (if smtp w i (email p) subject body then Inr True else Inl DeliveryError)"

subsection \<open>The run\<close>

text \<open>
  The calls a run makes to the collaborators are recorded in order: \<open>Generate\<close> for a
  call of \<^verbatim>\<open>generate_email_content\<close>, \<open>Send\<close> for a call of \<^verbatim>\<open>send_email\<close>.
  Console output and the pause after a successful send are not modelled.
\<close>

datatype event = Generate professor | Send professor string string

text \<open>
  The local variables of the loop in \<^verbatim>\<open>main\<close>: \<open>sent_list\<close> is the list
  \<^verbatim>\<open>sent_emails\<close>, \<open>emails_sent\<close> the counter, \<open>calls\<close> the record of calls.
\<close>

record locals =
  sent_list :: "string list"
  emails_sent :: nat
  calls :: "event list"

text \<open>Python indexing \<^verbatim>\<open>professors[i]\<close>: a negative index counts from the end.\<close>

definition py_index :: "'a list \<Rightarrow> int \<Rightarrow> error + 'a" where
  "py_index xs i =
     (let n = int (length xs) in
      if 0 \<le> i \<and> i < n then Inr (xs ! nat i)
      else if - n \<le> i \<and> i < 0 then Inr (xs ! nat (n + i))
      else Inl IndexError)"

text \<open>\<^verbatim>\<open>range(a, b)\<close>.\<close>

definition py_range :: "int \<Rightarrow> int \<Rightarrow> int list" where
  "py_range a b = [a..b - 1]"

text \<open>
  The \<^verbatim>\<open>try\<close> block of the loop body: an exception of either call is caught and the
  locals keep their values; a send that returns adds the address and counts.
\<close>

definition try_send :: "world \<Rightarrow> string \<Rightarrow> int \<Rightarrow> professor \<Rightarrow> locals \<Rightarrow> locals" where
  "try_send w cv_content i p s =
     (case generate_email_content w i p cv_content of
        Inl e \<Rightarrow> s\<lparr>calls := calls s @ [Generate p]\<rparr>
      | Inr (subject, body) \<Rightarrow>
          (case send_email w i p subject body of
             Inl e \<Rightarrow> s\<lparr>calls := calls s @ [Generate p, Send p subject body]\<rparr>
           | Inr success \<Rightarrow>
               if success
               then s\<lparr>sent_list := sent_list s @ [email p],
                      emails_sent := emails_sent s + 1,
                      calls := calls s @ [Generate p, Send p subject body]\<rparr>
               else s\<lparr>calls := calls s @ [Generate p, Send p subject body]\<rparr>))"

text \<open>
  The \<^verbatim>\<open>for\<close> loop over the positions. \<^verbatim>\<open>professors[i]\<close> and the membership test
  stand outside the \<^verbatim>\<open>try\<close>, so an \<^verbatim>\<open>IndexError\<close> ends the loop and the run.
\<close>

fun send_loop ::
  "world \<Rightarrow> string \<Rightarrow> professor list \<Rightarrow> int list \<Rightarrow> locals \<Rightarrow> locals \<times> error option" where
  "send_loop w cv_content professors [] s = (s, None)"
| "send_loop w cv_content professors (i # positions) s =
     (case py_index professors i of
        Inl e \<Rightarrow> (s, Some e)
      | Inr p \<Rightarrow>
          if email p \<in> set (sent_list s)
          then send_loop w cv_content professors positions s
          else send_loop w cv_content professors positions (try_send w cv_content i p s))"

datatype outcome = NoProfessorData | Summary nat int | Raised error

record result =
  stored :: storage
  trace :: "event list"
  outcome :: outcome

text \<open>
  \<^verbatim>\<open>main\<close>, from the rows fetched from the sheet and the storage it starts with: the
  storage it leaves, the calls it made, and how it ended (\<open>Summary\<close> carries the two
  numbers of the last line printed).
\<close>

definition main :: "world \<Rightarrow> row list \<Rightarrow> storage \<Rightarrow> result" where
  "main w values fs =
     (let professors = get_professor_data values in
      if professors = [] then \<lparr>stored = fs, trace = [], outcome = NoProfessorData\<rparr>
      else
        case load_email_status fs of
          Inl e \<Rightarrow> \<lparr>stored = fs, trace = [], outcome = Raised e\<rparr>
        | Inr status \<Rightarrow>
            (let last = last_index status;
                 cv_content = read_cv w;
                 stop = min (last + EMAILS_PER_DAY) (int (length professors))
             in
               (case send_loop w cv_content professors (py_range last stop)
                       \<lparr>sent_list = sent_emails status, emails_sent = 0, calls = []\<rparr> of
                  (s, Some e) \<Rightarrow> \<lparr>stored = fs, trace = calls s, outcome = Raised e\<rparr>
                | (s, None) \<Rightarrow>
                    (case save_email_status fs
                            (status\<lparr>last_index := stop, sent_emails := sent_list s\<rparr>) of
                       Inl e \<Rightarrow>
                         \<lparr>stored = os_makedirs fs, trace = calls s, outcome = Raised e\<rparr>
                     | Inr fs' \<Rightarrow>
                         \<lparr>stored = fs', trace = calls s,
                          outcome = Summary (emails_sent s) stop\<rparr>))))"

text \<open>A sequence of runs, each with its own world and its own fetched rows.\<close>

fun runs :: "(world \<times> row list) list \<Rightarrow> storage \<Rightarrow> storage" where
  "runs [] fs = fs"
| "runs ((w, values) # rest) fs = runs rest (stored (main w values fs))"

section \<open>Notions used to state the properties\<close>

text \<open>
  \<open>delivers\<close>: at position \<open>i\<close> the world lets both calls for professor \<open>p\<close> complete,
  so that \<^verbatim>\<open>success\<close> is true. \<open>send_calls\<close> and \<open>generate_calls\<close> are the addresses
  for which \<^verbatim>\<open>send_email\<close> and \<^verbatim>\<open>generate_email_content\<close> were called, in order.
\<close>

definition delivers :: "world \<Rightarrow> string \<Rightarrow> int \<Rightarrow> professor \<Rightarrow> bool" where
  "delivers w cv_content i p =
     (case generate_email_content w i p cv_content of
        Inl e \<Rightarrow> False
      | Inr (subject, body) \<Rightarrow> send_email w i p subject body = Inr True)"

fun addressee :: "event \<Rightarrow> string" where
  "addressee (Generate p) = email p"
| "addressee (Send p subject body) = email p"

fun send_calls :: "event list \<Rightarrow> string list" where
  "send_calls [] = []"
| "send_calls (Generate p # evs) = send_calls evs"
| "send_calls (Send p subject body # evs) = email p # send_calls evs"

fun generate_calls :: "event list \<Rightarrow> string list" where
  "generate_calls [] = []"
| "generate_calls (Generate p # evs) = email p # generate_calls evs"
| "generate_calls (Send p subject body # evs) = generate_calls evs"

text \<open>Concrete worlds and sheets, used to run the model on examples.\<close>

definition world_ok :: world where
  "world_ok = \<lparr>cv_head = Some ''cv'',
      generator = (\<lambda>i n d u c. Some (''Internship'', ''Dear '' @ n)),
      smtp = (\<lambda>i a subject body. True)\<rparr>"

definition world_second_fails :: world where
  "world_second_fails = \<lparr>cv_head = Some ''cv'',
      generator = (\<lambda>i n d u c. if i = 1 then None else Some (''Internship'', ''Dear '' @ n)),
      smtp = (\<lambda>i a subject body. True)\<rparr>"

definition three_rows :: "row list" where
  "three_rows = [[''A'', ''ml'', ''a@x''], [''B'', ''db'', ''b@x''], [''C'', ''os'', ''c@x'']]"

definition one_row :: "row list" where
  "one_row = [[''A'', ''ml'', ''a@x'']]"

definition mixed_rows :: "row list" where
  "mixed_rows = [[''A'', ''ml'', ''a@x''], [''B'', ''db''], [''C'', ''os'', ''c@x'', ''MIT'']]"

definition twin_rows :: "row list" where
  "twin_rows = [[''A'', ''ml'', ''a@x''], [''B'', ''db'', ''a@x'']]"

section \<open>Properties of the loop and of a run\<close>

lemma send_calls_subset: "set (send_calls evs) \<subseteq> set (map addressee evs)"
  by (induction evs rule: send_calls.induct) auto

lemma generate_calls_subset: "set (generate_calls evs) \<subseteq> set (map addressee evs)"
  by (induction evs rule: generate_calls.induct) auto

lemma save_email_status_ok: "save_email_status fs st = Inr (Holds (Document st))"
  by (cases fs) (simp_all add: save_email_status_def)

lemma try_send_sent_list:
  "sent_list (try_send w cv i p s) =
     (if delivers w cv i p then sent_list s @ [email p] else sent_list s)"
  by (simp add: try_send_def delivers_def send_email_def split: sum.splits prod.splits)

lemma try_send_calls:
  "set (map addressee (calls (try_send w cv i p s)))
     \<subseteq> insert (email p) (set (map addressee (calls s)))"
  by (auto simp: try_send_def split: sum.splits prod.splits if_splits)

lemma py_index_in_range:
  "0 \<le> i \<Longrightarrow> i < int (length xs) \<Longrightarrow> py_index xs i = Inr (xs ! nat i)"
  by (simp add: py_index_def)

lemma send_loop_completes:
  "\<forall>i\<in>set positions. 0 \<le> i \<and> i < int (length ps) \<Longrightarrow>
   snd (send_loop w cv ps positions s) = None"
  by (induction positions arbitrary: s) (simp_all add: py_index_in_range)

lemma send_loop_sent_set:
  "\<forall>i\<in>set positions. 0 \<le> i \<and> i < int (length ps) \<Longrightarrow>
   set (sent_list (fst (send_loop w cv ps positions s))) =
     set (sent_list s) \<union> {email (ps ! nat i) | i. i \<in> set positions \<and> delivers w cv i (ps ! nat i)}"
proof (induction positions arbitrary: s)
  case Nil
  then show ?case by simp
next
  case (Cons i positions)
  then have idx: "py_index ps i = Inr (ps ! nat i)"
    by (simp add: py_index_in_range)
  have rest: "\<forall>i\<in>set positions. 0 \<le> i \<and> i < int (length ps)"
    using Cons.prems by simp
  show ?case
  proof (cases "email (ps ! nat i) \<in> set (sent_list s)")
    case True
    then show ?thesis
      using Cons.IH [OF rest, of s] idx by auto
  next
    case False
    then show ?thesis
      using Cons.IH [OF rest, of "try_send w cv i (ps ! nat i) s"] idx
      by (auto simp: try_send_sent_list)
  qed
qed

lemma send_loop_prefix:
  "prefix (sent_list s) (sent_list (fst (send_loop w cv ps positions s)))"
proof (induction positions arbitrary: s)
  case Nil
  then show ?case by simp
next
  case (Cons i positions)
  have step: "prefix (sent_list s) (sent_list (try_send w cv i p s))" for p
    by (simp add: try_send_sent_list)
  show ?case
    using Cons.IH [of s] Cons.IH [of "try_send w cv i p s" for p] step
    by (auto split: sum.splits intro: prefix_order.trans)
qed

lemma send_loop_distinct:
  "distinct (sent_list s) \<Longrightarrow> distinct (sent_list (fst (send_loop w cv ps positions s)))"
proof (induction positions arbitrary: s)
  case Nil
  then show ?case by simp
next
  case (Cons i positions)
  have step: "email p \<notin> set (sent_list s) \<Longrightarrow> distinct (sent_list (try_send w cv i p s))" for p
    using Cons.prems by (simp add: try_send_sent_list)
  show ?case
    using Cons.IH [of s] Cons.IH [of "try_send w cv i p s" for p] step Cons.prems
    by (auto split: sum.splits)
qed

lemma send_loop_calls:
  "set (map addressee (calls (fst (send_loop w cv ps positions s)))) \<inter> set (sent_list s)
     \<subseteq> set (map addressee (calls s))"
proof (induction positions arbitrary: s)
  case Nil
  then show ?case by simp
next
  case (Cons i positions)
  show ?case
  proof (cases "py_index ps i")
    case (Inl e)
    then show ?thesis by simp
  next
    case (Inr p)
    show ?thesis
    proof (cases "email p \<in> set (sent_list s)")
      case True
      then show ?thesis using Inr Cons.IH [of s] by simp
    next
      case False
      let ?s' = "try_send w cv i p s"
      have grow: "set (sent_list s) \<subseteq> set (sent_list ?s')"
        by (auto simp: try_send_sent_list)
      have "set (map addressee (calls (fst (send_loop w cv ps positions ?s')))) \<inter> set (sent_list s)
              \<subseteq> set (map addressee (calls ?s')) \<inter> set (sent_list s)"
        using Cons.IH [of ?s'] grow by blast
      also have "\<dots> \<subseteq> set (map addressee (calls s))"
        using try_send_calls [of w cv i p s] False by blast
      finally show ?thesis using Inr False by simp
    qed
  qed
qed

lemma main_unfold:
  assumes "get_professor_data values \<noteq> []" and "load_email_status fs = Inr st"
  shows "main w values fs =
     (let ps = get_professor_data values;
          stop = min (last_index st + EMAILS_PER_DAY) (int (length ps));
          r = send_loop w (read_cv w) ps (py_range (last_index st) stop)
                \<lparr>sent_list = sent_emails st, emails_sent = 0, calls = []\<rparr>
      in case snd r of
           Some e \<Rightarrow> \<lparr>stored = fs, trace = calls (fst r), outcome = Raised e\<rparr>
         | None \<Rightarrow>
             \<lparr>stored = Holds (Document (st\<lparr>last_index := stop, sent_emails := sent_list (fst r)\<rparr>)),
              trace = calls (fst r), outcome = Summary (emails_sent (fst r)) stop\<rparr>)"
  using assms
  by (simp add: main_def Let_def save_email_status_ok split: prod.splits option.splits)

lemma py_range_set: "set (py_range a b) = {i. a \<le> i \<and> i < b}"
  by (auto simp: py_range_def)

lemma window_in_range:
  "0 \<le> a \<Longrightarrow> \<forall>i\<in>set (py_range a (min (a + d) (int n))). 0 \<le> i \<and> i < int n"
  by (simp add: py_range_set)

lemma main_completes:
  assumes "get_professor_data values \<noteq> []" and "load_email_status fs = Inr st"
    and "0 \<le> last_index st"
  shows "main w values fs =
     (let ps = get_professor_data values;
          stop = min (last_index st + EMAILS_PER_DAY) (int (length ps));
          s = fst (send_loop w (read_cv w) ps (py_range (last_index st) stop)
                \<lparr>sent_list = sent_emails st, emails_sent = 0, calls = []\<rparr>)
      in \<lparr>stored = Holds (Document (st\<lparr>last_index := stop, sent_emails := sent_list s\<rparr>)),
          trace = calls s, outcome = Summary (emails_sent s) stop\<rparr>)"
  using assms(3) send_loop_completes [OF window_in_range [OF assms(3)]]
  by (simp add: main_unfold [OF assms(1,2)] Let_def)

lemma load_Holds_Document: "load_email_status (Holds (Document st)) = Inr st"
  by (simp add: load_email_status_def)

lemma send_loop_window_sent_set:
  assumes "0 \<le> a"
  shows "set (sent_list (fst (send_loop w cv ps (py_range a (min (a + d) (int (length ps)))) s))) =
     set (sent_list s) \<union>
     {email (ps ! nat i) | i. a \<le> i \<and> i < min (a + d) (int (length ps))
        \<and> delivers w cv i (ps ! nat i)}"
  using send_loop_sent_set [OF window_in_range [OF assms]]
  by (simp add: py_range_set)

lemma main_trace_calls:
  assumes "load_email_status fs = Inr st"
  shows "set (map addressee (trace (main w values fs))) \<inter> set (sent_emails st) = {}"
proof (cases "get_professor_data values = []")
  case True
  then show ?thesis by (simp add: main_def)
next
  case False
  have "set (map addressee (calls (fst (send_loop w cv ps positions
            \<lparr>sent_list = sent_emails st, emails_sent = 0, calls = []\<rparr>)))) \<inter> set (sent_emails st) = {}"
    for cv ps positions
    using send_loop_calls [of w cv ps positions
        "\<lparr>sent_list = sent_emails st, emails_sent = 0, calls = []\<rparr>"]
    by simp
  then show ?thesis
    by (simp add: main_unfold [OF False assms] Let_def split: option.splits)
qed

lemma send_loop_raises_negative:
  assumes "snd (send_loop w cv ps (py_range a (min (a + d) (int (length ps)))) s) \<noteq> None"
  shows "a < 0"
proof (rule ccontr)
  assume "\<not> a < 0"
  then have "0 \<le> a" by simp
  have "snd (send_loop w cv ps (py_range a (min (a + d) (int (length ps)))) s) = None"
    by (rule send_loop_completes [OF window_in_range [OF \<open>0 \<le> a\<close>]])
  with assms show False
    by simp
qed

lemma runs_last_index:
  assumes "\<forall>r\<in>set rs. length (get_professor_data (snd r)) = L" and "0 < L"
    and "load_email_status fs = Inr st0" and "0 \<le> last_index st0" and "last_index st0 \<le> int L"
  shows "\<exists>st. load_email_status (runs rs fs) = Inr st
           \<and> last_index st = min (last_index st0 + int (length rs) * EMAILS_PER_DAY) (int L)"
  using assms
proof (induction rs arbitrary: fs st0)
  case Nil
  then show ?case by simp
next
  case (Cons r rs)
  obtain w vs where r: "r = (w, vs)"
    by (cases r)
  have len: "length (get_professor_data vs) = L"
    using Cons.prems(1) r by simp
  then have ne: "get_professor_data vs \<noteq> []"
    using Cons.prems(2) by auto
  let ?stop = "min (last_index st0 + EMAILS_PER_DAY) (int L)"
  obtain st1 where st1: "stored (main w vs fs) = Holds (Document st1)"
    and last1: "last_index st1 = ?stop"
    using main_completes [OF ne Cons.prems(3,4), of w] len by (simp add: Let_def)
  have load1: "load_email_status (stored (main w vs fs)) = Inr st1"
    using st1 by (simp add: load_Holds_Document)
  have b1: "0 \<le> last_index st1" and b2: "last_index st1 \<le> int L"
    using last1 Cons.prems(4) by (simp_all add: EMAILS_PER_DAY_def)
  have rest: "\<forall>r\<in>set rs. length (get_professor_data (snd r)) = L"
    using Cons.prems(1) by simp
  obtain st where st: "load_email_status (runs rs (stored (main w vs fs))) = Inr st"
    and last: "last_index st = min (last_index st1 + int (length rs) * EMAILS_PER_DAY) (int L)"
    using Cons.IH [OF rest Cons.prems(2) load1 b1 b2] by blast
  have "min (last_index st1 + int (length rs) * EMAILS_PER_DAY) (int L)
        = min (last_index st0 + int (length (r # rs)) * EMAILS_PER_DAY) (int L)"
    using last1 by (simp add: EMAILS_PER_DAY_def min_def)
  then show ?case
    using st last r by simp
qed

lemma py_range_empty: "b \<le> a \<Longrightarrow> py_range a b = []"
  by (simp add: py_range_def)

lemma load_email_status_positive:
  assumes "load_email_status fs = Inr st" and "0 < last_index st"
  shows "fs = Holds (Document st)"
proof (cases fs)
  case NoDir
  then show ?thesis using assms by (auto simp: load_email_status_def)
next
  case NoFile
  then show ?thesis using assms by (auto simp: load_email_status_def)
next
  case (Holds c)
  then show ?thesis using assms by (cases c) (simp_all add: load_email_status_def)
qed

lemma get_professor_data_filter:
  "get_professor_data (filter (\<lambda>row. 3 \<le> length row) values) = get_professor_data values"
  by (induction "values") simp_all

lemma get_professor_data_full:
  "\<forall>row\<in>set rows. 3 \<le> length row \<Longrightarrow>
   length (get_professor_data rows) = length rows
   \<and> (\<forall>k<length rows.
         name (get_professor_data rows ! k) = rows ! k ! 0
         \<and> research_domain (get_professor_data rows ! k) = rows ! k ! 1
         \<and> email (get_professor_data rows ! k) = rows ! k ! 2
         \<and> university (get_professor_data rows ! k)
             = (if length (rows ! k) = 3 then ''Unknown'' else rows ! k ! 3))"
proof (induction rows)
  case Nil
  then show ?case by simp
next
  case (Cons row rows)
  then show ?case
    by (auto simp: nth_Cons split: nat.splits)
qed

section \<open>The claims\<close>

subsection \<open>C1: loading the checkpoint\<close>

text \<open>
  C1, as stated, fails for a file that exists and does not parse: \<^verbatim>\<open>json.load\<close>
  raises and \<^verbatim>\<open>load_email_status\<close> does not catch it, so the default status is not
  returned.
\<close>

theorem load_corrupt_raises:
  "load_email_status (Holds Unparsable) = Inl JSONDecodeError
   \<and> load_email_status (Holds Unparsable) \<noteq> Inr \<lparr>last_index = 0, sent_emails = []\<rparr>"
  by (simp add: load_email_status_def)

text \<open>
  C1, amended: when the status file is absent (with or without its directory),
  \<^verbatim>\<open>load_email_status\<close> returns the default status with \<^verbatim>\<open>last_index\<close> 0 and no
  sent address; when the file exists and does not parse, the load raises
  \<^verbatim>\<open>JSONDecodeError\<close>, and a run with a non-empty contact list ends with that error
  before any call, leaving the file as it was.
\<close>

theorem load_absent_default:
  "(\<not> path_exists fs \<longrightarrow> load_email_status fs = Inr \<lparr>last_index = 0, sent_emails = []\<rparr>)
   \<and> load_email_status (Holds Unparsable) = Inl JSONDecodeError
   \<and> (get_professor_data values \<noteq> [] \<longrightarrow>
        main w values (Holds Unparsable) =
          \<lparr>stored = Holds Unparsable, trace = [], outcome = Raised JSONDecodeError\<rparr>)"
  by (simp add: load_email_status_def main_def)

text \<open>
  C1, witness: the directory without the file, and a run over one contact on an
  unparsable file.
\<close>

theorem load_absent_default_witness:
  "\<not> path_exists NoFile
   \<and> load_email_status NoFile = Inr \<lparr>last_index = 0, sent_emails = []\<rparr>
   \<and> get_professor_data one_row \<noteq> []
   \<and> main world_ok one_row (Holds Unparsable) =
        \<lparr>stored = Holds Unparsable, trace = [], outcome = Raised JSONDecodeError\<rparr>"
  using load_absent_default [of NoFile one_row world_ok]
  by (simp add: one_row_def)

subsection \<open>C2: failures inside the window\<close>

text \<open>
  C2: in a run over a non-empty contact list, from a status with a non-negative
  \<^verbatim>\<open>last_index\<close>, every failure of generation or delivery is caught: the run ends
  with its summary and saves a status whose \<^verbatim>\<open>last_index\<close> is
  \<^verbatim>\<open>min(last_index + EMAILS_PER_DAY, len(professors))\<close>, and whose sent addresses are
  those loaded and those of the window positions where generation and delivery
  completed. A position that fails adds nothing, and the positions after it are
  still processed.
\<close>

theorem run_survives_failures:
  assumes "get_professor_data values = ps" and "ps \<noteq> []"
    and "load_email_status fs = Inr st" and "0 \<le> last_index st"
  shows "\<exists>st' n. stored (main w values fs) = Holds (Document st')
           \<and> outcome (main w values fs) = Summary n (last_index st')
           \<and> last_index st' = min (last_index st + EMAILS_PER_DAY) (int (length ps))
           \<and> set (sent_emails st') =
               set (sent_emails st) \<union>
               {email (ps ! nat i) | i.
                  last_index st \<le> i \<and> i < min (last_index st + EMAILS_PER_DAY) (int (length ps))
                  \<and> delivers w (read_cv w) i (ps ! nat i)}"
proof -
  let ?stop = "min (last_index st + EMAILS_PER_DAY) (int (length ps))"
  let ?s = "fst (send_loop w (read_cv w) ps (py_range (last_index st) ?stop)
                \<lparr>sent_list = sent_emails st, emails_sent = 0, calls = []\<rparr>)"
  have ne: "get_professor_data values \<noteq> []"
    using assms(1,2) by simp
  have m: "main w values fs =
      \<lparr>stored = Holds (Document (st\<lparr>last_index := ?stop, sent_emails := sent_list ?s\<rparr>)),
       trace = calls ?s, outcome = Summary (emails_sent ?s) ?stop\<rparr>"
    using main_completes [OF ne assms(3,4), of w] assms(1) by (simp add: Let_def)
  have s: "set (sent_list ?s) =
      set (sent_emails st) \<union>
      {email (ps ! nat i) | i. last_index st \<le> i \<and> i < ?stop
          \<and> delivers w (read_cv w) i (ps ! nat i)}"
    using send_loop_window_sent_set [OF assms(4), where w = w and cv = "read_cv w"
        and s = "\<lparr>sent_list = sent_emails st, emails_sent = 0, calls = []\<rparr>"
        and ps = ps and d = EMAILS_PER_DAY]
    by simp
  show ?thesis
    using m s by simp
qed

text \<open>
  C2, witness: three contacts, generation fails for the second. The run saves
  \<^verbatim>\<open>last_index\<close> 3 and the first and third addresses, not the second.
\<close>

theorem run_survives_failures_witness:
  "[\<lparr>name = ''A'', research_domain = ''ml'', email = ''a@x'', university = ''Unknown''\<rparr>,
    \<lparr>name = ''B'', research_domain = ''db'', email = ''b@x'', university = ''Unknown''\<rparr>,
    \<lparr>name = ''C'', research_domain = ''os'', email = ''c@x'', university = ''Unknown''\<rparr>]
     = get_professor_data three_rows
   \<and> load_email_status NoDir = Inr \<lparr>last_index = 0, sent_emails = []\<rparr>
   \<and> \<not> delivers world_second_fails (read_cv world_second_fails) 1
        \<lparr>name = ''B'', research_domain = ''db'', email = ''b@x'', university = ''Unknown''\<rparr>
   \<and> main world_second_fails three_rows NoDir =
       \<lparr>stored = Holds (Document \<lparr>last_index = 3, sent_emails = [''a@x'', ''c@x'']\<rparr>),
        trace =
          [Generate \<lparr>name = ''A'', research_domain = ''ml'', email = ''a@x'', university = ''Unknown''\<rparr>,
           Send \<lparr>name = ''A'', research_domain = ''ml'', email = ''a@x'', university = ''Unknown''\<rparr>
             ''Internship'' ''Dear A'',
           Generate \<lparr>name = ''B'', research_domain = ''db'', email = ''b@x'', university = ''Unknown''\<rparr>,
           Generate \<lparr>name = ''C'', research_domain = ''os'', email = ''c@x'', university = ''Unknown''\<rparr>,
           Send \<lparr>name = ''C'', research_domain = ''os'', email = ''c@x'', university = ''Unknown''\<rparr>
             ''Internship'' ''Dear C''],
        outcome = Summary 2 3\<rparr>
   \<and> (\<exists>st' n. stored (main world_second_fails three_rows NoDir) = Holds (Document st')
         \<and> outcome (main world_second_fails three_rows NoDir) = Summary n (last_index st')
         \<and> last_index st' = min (0 + EMAILS_PER_DAY) 3)"
proof -
  let ?ps = "[\<lparr>name = ''A'', research_domain = ''ml'', email = ''a@x'', university = ''Unknown''\<rparr>,
    \<lparr>name = ''B'', research_domain = ''db'', email = ''b@x'', university = ''Unknown''\<rparr>,
    \<lparr>name = ''C'', research_domain = ''os'', email = ''c@x'', university = ''Unknown''\<rparr>]"
  have h1: "get_professor_data three_rows = ?ps"
    by (simp add: three_rows_def)
  have h2: "?ps \<noteq> []"
    by simp
  have h3: "load_email_status NoDir = Inr \<lparr>last_index = 0, sent_emails = []\<rparr>"
    by (simp add: load_email_status_def)
  have h4: "0 \<le> last_index \<lparr>last_index = 0, sent_emails = []\<rparr>"
    by simp
  have fails: "\<not> delivers world_second_fails (read_cv world_second_fails) 1
        \<lparr>name = ''B'', research_domain = ''db'', email = ''b@x'', university = ''Unknown''\<rparr>"
    by (simp add: delivers_def generate_email_content_def world_second_fails_def)
  have run: "main world_second_fails three_rows NoDir =
       \<lparr>stored = Holds (Document \<lparr>last_index = 3, sent_emails = [''a@x'', ''c@x'']\<rparr>),
        trace =
          [Generate \<lparr>name = ''A'', research_domain = ''ml'', email = ''a@x'', university = ''Unknown''\<rparr>,
           Send \<lparr>name = ''A'', research_domain = ''ml'', email = ''a@x'', university = ''Unknown''\<rparr>
             ''Internship'' ''Dear A'',
           Generate \<lparr>name = ''B'', research_domain = ''db'', email = ''b@x'', university = ''Unknown''\<rparr>,
           Generate \<lparr>name = ''C'', research_domain = ''os'', email = ''c@x'', university = ''Unknown''\<rparr>,
           Send \<lparr>name = ''C'', research_domain = ''os'', email = ''c@x'', university = ''Unknown''\<rparr>
             ''Internship'' ''Dear C''],
        outcome = Summary 2 3\<rparr>"
    by (simp add: main_def world_second_fails_def three_rows_def load_email_status_def
      EMAILS_PER_DAY_def py_range_def upto.simps py_index_def try_send_def
      generate_email_content_def send_email_def read_cv_def save_email_status_def)
  from run_survives_failures [OF h1 h2 h3 h4, of world_second_fails]
  have "\<exists>st' n. stored (main world_second_fails three_rows NoDir) = Holds (Document st')
         \<and> outcome (main world_second_fails three_rows NoDir) = Summary n (last_index st')
         \<and> last_index st' = min (0 + EMAILS_PER_DAY) 3"
    by auto
  with h1 h3 fails run show ?thesis
    by simp
qed

subsection \<open>C3: the index after k runs\<close>

text \<open>
  C3: starting from the default status, after \<open>k\<close> runs that each fetch a contact
  list of the same length \<open>L > 0\<close>, the saved \<^verbatim>\<open>last_index\<close> is
  \<^verbatim>\<open>min(k * EMAILS_PER_DAY, L)\<close>, whatever the collaborators answer in those runs.
\<close>

theorem next_index_after_runs:
  assumes "\<forall>r\<in>set rs. length (get_professor_data (snd r)) = L" and "0 < L"
    and "load_email_status fs = Inr \<lparr>last_index = 0, sent_emails = []\<rparr>"
  shows "\<exists>st. load_email_status (runs rs fs) = Inr st
           \<and> last_index st = min (int (length rs) * EMAILS_PER_DAY) (int L)"
  using runs_last_index [OF assms] by simp

text \<open>
  C3, witness: two runs over three contacts, the first with a failing generation.
\<close>

theorem next_index_after_runs_witness:
  "length (get_professor_data three_rows) = 3
   \<and> (0::nat) < 3
   \<and> load_email_status NoDir = Inr \<lparr>last_index = 0, sent_emails = []\<rparr>
   \<and> (\<exists>st. load_email_status
              (runs [(world_second_fails, three_rows), (world_ok, three_rows)] NoDir) = Inr st
           \<and> last_index st = min (2 * EMAILS_PER_DAY) 3)"
proof -
  have h1: "\<forall>r\<in>set [(world_second_fails, three_rows), (world_ok, three_rows)].
       length (get_professor_data (snd r)) = 3"
    by (simp add: three_rows_def)
  have h2: "(0::nat) < 3"
    by simp
  have h3: "load_email_status NoDir = Inr \<lparr>last_index = 0, sent_emails = []\<rparr>"
    by (simp add: load_email_status_def)
  have len: "length (get_professor_data three_rows) = 3"
    by (simp add: three_rows_def)
  from next_index_after_runs [OF h1 h2 h3] len h3 show ?thesis
    by simp
qed

subsection \<open>C4: no call for a delivered address\<close>

text \<open>
  C4: an address in the sent list loaded at the start of a run is never passed to
  \<^verbatim>\<open>send_email\<close> in that run, nor to \<^verbatim>\<open>generate_email_content\<close>: the contact is
  skipped before both calls.
\<close>

theorem delivered_never_contacted:
  assumes "load_email_status fs = Inr st" and "a \<in> set (sent_emails st)"
  shows "a \<notin> set (send_calls (trace (main w values fs)))
       \<and> a \<notin> set (generate_calls (trace (main w values fs)))"
  using main_trace_calls [OF assms(1), of w "values"] assms(2)
    send_calls_subset [of "trace (main w values fs)"]
    generate_calls_subset [of "trace (main w values fs)"]
  by blast

text \<open>
  C4, witness: three contacts, the second already delivered; the run sends to the
  first and the third only.
\<close>

theorem delivered_never_contacted_witness:
  "load_email_status (Holds (Document \<lparr>last_index = 0, sent_emails = [''b@x'']\<rparr>))
     = Inr \<lparr>last_index = 0, sent_emails = [''b@x'']\<rparr>
   \<and> ''b@x'' \<in> set (sent_emails \<lparr>last_index = 0, sent_emails = [''b@x'']\<rparr>)
   \<and> send_calls (trace (main world_ok three_rows
         (Holds (Document \<lparr>last_index = 0, sent_emails = [''b@x'']\<rparr>)))) = [''a@x'', ''c@x'']
   \<and> ''b@x'' \<notin> set (send_calls (trace (main world_ok three_rows
         (Holds (Document \<lparr>last_index = 0, sent_emails = [''b@x'']\<rparr>)))))
   \<and> ''b@x'' \<notin> set (generate_calls (trace (main world_ok three_rows
         (Holds (Document \<lparr>last_index = 0, sent_emails = [''b@x'']\<rparr>)))))"
proof -
  let ?st = "\<lparr>last_index = 0, sent_emails = [''b@x'']\<rparr>"
  have h1: "load_email_status (Holds (Document ?st)) = Inr ?st"
    by (simp add: load_email_status_def)
  have h2: "''b@x'' \<in> set (sent_emails ?st)"
    by simp
  have run: "send_calls (trace (main world_ok three_rows (Holds (Document ?st)))) = [''a@x'', ''c@x'']"
    by (simp add: main_def world_ok_def three_rows_def load_email_status_def
      EMAILS_PER_DAY_def py_range_def upto.simps py_index_def try_send_def
      generate_email_content_def send_email_def read_cv_def save_email_status_def)
  from delivered_never_contacted [OF h1 h2, of world_ok three_rows] h1 h2 run
  show ?thesis by blast
qed

subsection \<open>C5: growth of the checkpoint\<close>

text \<open>
  C5, as stated, fails when the contact list shrinks: after a first run over three
  contacts \<^verbatim>\<open>last_index\<close> is 3, and a second run over a list of one contact saves
  \<^verbatim>\<open>min(3 + 10, 1) = 1\<close>.
\<close>

theorem next_index_can_decrease:
  "load_email_status (runs [(world_ok, three_rows)] NoDir)
     = Inr \<lparr>last_index = 3, sent_emails = [''a@x'', ''b@x'', ''c@x'']\<rparr>
   \<and> load_email_status (runs [(world_ok, three_rows), (world_ok, one_row)] NoDir)
     = Inr \<lparr>last_index = 1, sent_emails = [''a@x'', ''b@x'', ''c@x'']\<rparr>"
  by (simp add: main_def world_ok_def three_rows_def one_row_def load_email_status_def
      EMAILS_PER_DAY_def py_range_def upto.simps py_index_def try_send_def
      generate_email_content_def send_email_def read_cv_def save_email_status_def)

text \<open>
  C5, amended: in every run, whatever the contact list, the sent list only grows
  (the loaded list is a prefix of the saved one); \<^verbatim>\<open>last_index\<close> does not decrease,
  except when the fetched contact list is non-empty and shorter than the loaded
  \<^verbatim>\<open>last_index\<close>, where the run lowers \<^verbatim>\<open>last_index\<close> to the length of the list.
\<close>

theorem checkpoint_growth:
  assumes "load_email_status fs = Inr st"
  shows "\<exists>st'. load_email_status (stored (main w values fs)) = Inr st'
           \<and> prefix (sent_emails st) (sent_emails st')
           \<and> (last_index st' < last_index st \<longleftrightarrow>
                0 < length (get_professor_data values)
                \<and> int (length (get_professor_data values)) < last_index st)
           \<and> (last_index st' < last_index st \<longrightarrow>
                last_index st' = int (length (get_professor_data values)))"
proof (cases "get_professor_data values = []")
  case True
  then show ?thesis using assms by (simp add: main_def)
next
  case False
  let ?ps = "get_professor_data values"
  let ?stop = "min (last_index st + EMAILS_PER_DAY) (int (length ?ps))"
  let ?r = "send_loop w (read_cv w) ?ps (py_range (last_index st) ?stop)
                \<lparr>sent_list = sent_emails st, emails_sent = 0, calls = []\<rparr>"
  show ?thesis
  proof (cases "snd ?r")
    case None
    have m: "stored (main w values fs) =
        Holds (Document (st\<lparr>last_index := ?stop, sent_emails := sent_list (fst ?r)\<rparr>))"
      using None by (simp add: main_unfold [OF False assms] Let_def)
    have p: "prefix (sent_emails st) (sent_list (fst ?r))"
      using send_loop_prefix [of "\<lparr>sent_list = sent_emails st, emails_sent = 0, calls = []\<rparr>"
          w "read_cv w" ?ps "py_range (last_index st) ?stop"]
      by simp
    show ?thesis
      using m p False by (auto simp: load_Holds_Document EMAILS_PER_DAY_def)
  next
    case (Some e)
    then have "snd ?r \<noteq> None"
      by simp
    then have neg: "last_index st < 0"
      by (rule send_loop_raises_negative)
    have m: "stored (main w values fs) = fs"
      using Some by (simp add: main_unfold [OF False assms] Let_def)
    show ?thesis
      using m assms neg by simp
  qed
qed

text \<open>
  C5, witness: a status with \<^verbatim>\<open>last_index\<close> 3 and a list of one contact.
\<close>

theorem checkpoint_growth_witness:
  "load_email_status (Holds (Document \<lparr>last_index = 3, sent_emails = [''b@x'']\<rparr>))
     = Inr \<lparr>last_index = 3, sent_emails = [''b@x'']\<rparr>
   \<and> load_email_status (stored (main world_ok one_row
         (Holds (Document \<lparr>last_index = 3, sent_emails = [''b@x'']\<rparr>))))
       = Inr \<lparr>last_index = 1, sent_emails = [''b@x'']\<rparr>
   \<and> (\<exists>st'. load_email_status (stored (main world_ok one_row
         (Holds (Document \<lparr>last_index = 3, sent_emails = [''b@x'']\<rparr>)))) = Inr st'
         \<and> prefix [''b@x''] (sent_emails st')
         \<and> last_index st' < 3
         \<and> last_index st' = int (length (get_professor_data one_row)))"
proof -
  let ?st = "\<lparr>last_index = 3, sent_emails = [''b@x'']\<rparr>"
  have h: "load_email_status (Holds (Document ?st)) = Inr ?st"
    by (simp add: load_email_status_def)
  have len: "length (get_professor_data one_row) = 1"
    by (simp add: one_row_def)
  have run: "load_email_status (stored (main world_ok one_row (Holds (Document ?st))))
       = Inr \<lparr>last_index = 1, sent_emails = [''b@x'']\<rparr>"
    by (simp add: main_def world_ok_def one_row_def load_email_status_def
      EMAILS_PER_DAY_def py_range_def upto.simps py_index_def try_send_def
      generate_email_content_def send_email_def read_cv_def save_email_status_def)
  from checkpoint_growth [OF h, of world_ok one_row] h run len
  show ?thesis by auto
qed

subsection \<open>C6: a run after the list is exhausted\<close>

text \<open>
  C6: when the loaded \<^verbatim>\<open>last_index\<close> equals the length \<open>L > 0\<close> of the contact list,
  the window is empty: the run calls neither collaborator, its summary reports 0
  emails sent and the index \<open>L\<close>, and the status it writes is the one it loaded, so the
  storage is the same after the run as before.
\<close>

theorem exhausted_run_unchanged:
  assumes "load_email_status fs = Inr st"
    and "get_professor_data values \<noteq> []"
    and "last_index st = int (length (get_professor_data values))"
  shows "main w values fs =
           \<lparr>stored = fs, trace = [], outcome = Summary 0 (last_index st)\<rparr>
         \<and> load_email_status (stored (main w values fs)) = Inr st"
proof -
  have pos: "0 < last_index st"
    using assms(2,3) by simp
  have fs: "fs = Holds (Document st)"
    by (rule load_email_status_positive [OF assms(1) pos])
  have stop: "min (last_index st + EMAILS_PER_DAY) (int (length (get_professor_data values)))
      = last_index st"
    using assms(3) by (simp add: EMAILS_PER_DAY_def)
  have "main w values fs =
      \<lparr>stored = Holds (Document st), trace = [], outcome = Summary 0 (last_index st)\<rparr>"
    by (simp add: main_unfold [OF assms(2,1)] Let_def stop py_range_empty)
  then show ?thesis
    using fs assms(1) by simp
qed

text \<open>
  C6, witness: three contacts and a status with \<^verbatim>\<open>last_index\<close> 3.
\<close>

theorem exhausted_run_unchanged_witness:
  "load_email_status (Holds (Document \<lparr>last_index = 3, sent_emails = [''a@x'', ''c@x'']\<rparr>))
     = Inr \<lparr>last_index = 3, sent_emails = [''a@x'', ''c@x'']\<rparr>
   \<and> get_professor_data three_rows \<noteq> []
   \<and> last_index \<lparr>last_index = 3, sent_emails = [''a@x'', ''c@x'']\<rparr>
       = int (length (get_professor_data three_rows))
   \<and> main world_ok three_rows
        (Holds (Document \<lparr>last_index = 3, sent_emails = [''a@x'', ''c@x'']\<rparr>)) =
       \<lparr>stored = Holds (Document \<lparr>last_index = 3, sent_emails = [''a@x'', ''c@x'']\<rparr>),
        trace = [], outcome = Summary 0 3\<rparr>"
proof -
  let ?st = "\<lparr>last_index = 3, sent_emails = [''a@x'', ''c@x'']\<rparr>"
  have h1: "load_email_status (Holds (Document ?st)) = Inr ?st"
    by (simp add: load_email_status_def)
  have h2: "get_professor_data three_rows \<noteq> []"
    by (simp add: three_rows_def)
  have h3: "last_index ?st = int (length (get_professor_data three_rows))"
    by (simp add: three_rows_def)
  from exhausted_run_unchanged [OF h1 h2 h3, of world_ok] h1 h2 h3 show ?thesis
    by simp
qed

subsection \<open>C7: an empty contact list\<close>

text \<open>
  C7, as stated, fails in its first half: on an empty contact list \<^verbatim>\<open>main\<close> prints
  \<^verbatim>\<open>No professor data found.\<close> and returns before the counter \<^verbatim>\<open>emails_sent\<close>
  exists, so no processed count, and in particular no count of 0, is reported.
\<close>

theorem empty_contacts_report_no_count:
  "get_professor_data [[''B'', ''db'']] = []
   \<and> outcome (main world_ok [[''B'', ''db'']] NoDir) = NoProfessorData
   \<and> outcome (main world_ok [[''B'', ''db'']] NoDir) \<noteq> Summary 0 0"
  by (simp add: main_def)

text \<open>
  C7, amended: when no contact is fetched, \<^verbatim>\<open>main\<close> returns at once with the message
  that no professor data was found and reports no processed count; nothing is
  processed (no call is made), and the status file is neither read nor written,
  whatever its state, so the storage stays exactly as it was.
\<close>

theorem empty_contacts_untouched:
  assumes "get_professor_data values = []"
  shows "main w values fs = \<lparr>stored = fs, trace = [], outcome = NoProfessorData\<rparr>
         \<and> (\<forall>n k. outcome (main w values fs) \<noteq> Summary n k)"
  using assms by (simp add: main_def)

text \<open>
  C7, witness: a sheet whose only row is too short, on a file that would not load
  and on a missing directory that a save would create.
\<close>

theorem empty_contacts_untouched_witness:
  "get_professor_data [[''B'', ''db'']] = []
   \<and> main world_ok [[''B'', ''db'']] (Holds Unparsable)
       = \<lparr>stored = Holds Unparsable, trace = [], outcome = NoProfessorData\<rparr>
   \<and> main world_ok [[''B'', ''db'']] NoDir
       = \<lparr>stored = NoDir, trace = [], outcome = NoProfessorData\<rparr>
   \<and> (\<forall>n k. outcome (main world_ok [[''B'', ''db'']] NoDir) \<noteq> Summary n k)"
proof -
  have h: "get_professor_data [[''B'', ''db'']] = []"
    by simp
  from empty_contacts_untouched [OF h, of world_ok "Holds Unparsable"]
    empty_contacts_untouched [OF h, of world_ok NoDir] h
  show ?thesis by simp
qed

subsection \<open>C8: saving the checkpoint\<close>

text \<open>
  C8, as stated, fails in its second half: \<^verbatim>\<open>open(STATUS_FILE, 'w')\<close> truncates the
  file in place before \<^verbatim>\<open>json.dump\<close> writes, so between the two statements the file
  holds neither the old status nor the new one, and a load at that point raises.
\<close>

theorem save_not_atomic:
  "save_email_status_steps
      (Holds (Document \<lparr>last_index = 0, sent_emails = []\<rparr>))
      \<lparr>last_index = 3, sent_emails = [''a@x'']\<rparr>
     = ([Holds (Document \<lparr>last_index = 0, sent_emails = []\<rparr>),
         Holds Unparsable,
         Holds (Document \<lparr>last_index = 3, sent_emails = [''a@x'']\<rparr>)], None)
   \<and> load_email_status (Holds Unparsable) = Inl JSONDecodeError"
  by (simp add: save_email_status_steps_def load_email_status_def)

text \<open>
  C8, amended: \<^verbatim>\<open>save_email_status\<close> creates the missing directory before it opens
  the file, so the open never fails for a missing directory, and once the save has
  returned a load yields exactly the saved status. The overwrite is in place and not
  atomic: after the open and before the end of the dump the file is one that a load
  rejects.
\<close>

theorem save_creates_and_stores:
  "os_makedirs fs \<noteq> NoDir
   \<and> save_email_status_steps fs st
       = ([os_makedirs fs, Holds Unparsable, Holds (Document st)], None)
   \<and> save_email_status fs st = Inr (Holds (Document st))
   \<and> load_email_status (Holds (Document st)) = Inr st
   \<and> load_email_status (Holds Unparsable) = Inl JSONDecodeError"
  by (cases fs) (simp_all add: save_email_status_steps_def save_email_status_def
      load_email_status_def)

subsection \<open>C9: rows with fewer than three cells\<close>

text \<open>
  C9: \<^verbatim>\<open>get_professor_data\<close> drops every row with fewer than three cells: the
  professors are, position by position, the rows that have at least three cells,
  a row of exactly three cells gets the university \<^verbatim>\<open>Unknown\<close>, and a run over a
  sheet is the run over the sheet without its short rows, so \<^verbatim>\<open>last_index\<close> and the
  window count positions of the filtered list.
\<close>

theorem short_rows_excluded:
  "length (get_professor_data values) = length (filter (\<lambda>row. 3 \<le> length row) values)
   \<and> (\<forall>k<length (filter (\<lambda>row. 3 \<le> length row) values).
         name (get_professor_data values ! k) = filter (\<lambda>row. 3 \<le> length row) values ! k ! 0
         \<and> research_domain (get_professor_data values ! k)
             = filter (\<lambda>row. 3 \<le> length row) values ! k ! 1
         \<and> email (get_professor_data values ! k) = filter (\<lambda>row. 3 \<le> length row) values ! k ! 2
         \<and> (length (filter (\<lambda>row. 3 \<le> length row) values ! k) = 3 \<longrightarrow>
               university (get_professor_data values ! k) = ''Unknown''))
   \<and> main w values fs = main w (filter (\<lambda>row. 3 \<le> length row) values) fs"
proof -
  let ?kept = "filter (\<lambda>row. 3 \<le> length row) values"
  have all: "\<forall>row\<in>set ?kept. 3 \<le> length row"
    by simp
  have m: "main w values fs = main w ?kept fs"
    by (simp add: main_def get_professor_data_filter)
  show ?thesis
    using get_professor_data_full [OF all] m
    by (simp add: get_professor_data_filter)
qed

text \<open>
  C9, witness: a sheet with a short row between a row of three and a row of four
  cells.
\<close>

theorem short_rows_excluded_witness:
  "filter (\<lambda>row. 3 \<le> length row) mixed_rows
     = [[''A'', ''ml'', ''a@x''], [''C'', ''os'', ''c@x'', ''MIT'']]
   \<and> get_professor_data mixed_rows =
       [\<lparr>name = ''A'', research_domain = ''ml'', email = ''a@x'', university = ''Unknown''\<rparr>,
        \<lparr>name = ''C'', research_domain = ''os'', email = ''c@x'', university = ''MIT''\<rparr>]
   \<and> (0::nat) < length (filter (\<lambda>row. 3 \<le> length row) mixed_rows)
   \<and> length (filter (\<lambda>row. 3 \<le> length row) mixed_rows ! 0) = 3
   \<and> university (get_professor_data mixed_rows ! 0) = ''Unknown''
   \<and> email (get_professor_data mixed_rows ! 1) = ''c@x''
   \<and> main world_ok mixed_rows NoDir
       = main world_ok (filter (\<lambda>row. 3 \<le> length row) mixed_rows) NoDir"
proof -
  have kept: "filter (\<lambda>row. 3 \<le> length row) mixed_rows
     = [[''A'', ''ml'', ''a@x''], [''C'', ''os'', ''c@x'', ''MIT'']]"
    by (simp add: mixed_rows_def)
  have gpd: "get_professor_data mixed_rows =
       [\<lparr>name = ''A'', research_domain = ''ml'', email = ''a@x'', university = ''Unknown''\<rparr>,
        \<lparr>name = ''C'', research_domain = ''os'', email = ''c@x'', university = ''MIT''\<rparr>]"
    by (simp add: mixed_rows_def)
  from short_rows_excluded [of mixed_rows world_ok NoDir] kept gpd show ?thesis
    by simp
qed

subsection \<open>C10: no duplicate in the sent list\<close>

text \<open>
  C10: if the loaded sent list has no duplicate, the sent list after the run has
  none: an address is appended only when the membership test found it absent.
\<close>

theorem sent_emails_stay_distinct:
  assumes "load_email_status fs = Inr st" and "distinct (sent_emails st)"
  shows "\<exists>st'. load_email_status (stored (main w values fs)) = Inr st'
           \<and> distinct (sent_emails st')"
proof (cases "get_professor_data values = []")
  case True
  then show ?thesis using assms by (simp add: main_def)
next
  case False
  have "distinct (sent_list (fst (send_loop w cv ps positions
          \<lparr>sent_list = sent_emails st, emails_sent = 0, calls = []\<rparr>)))" for cv ps positions
    using send_loop_distinct [of "\<lparr>sent_list = sent_emails st, emails_sent = 0, calls = []\<rparr>"
        w cv ps positions] assms(2)
    by simp
  then show ?thesis
    using assms
    by (simp add: main_unfold [OF False assms(1)] Let_def load_Holds_Document
        split: option.splits)
qed

text \<open>
  C10, witness: the same address at two positions of one window; it is sent to
  once and stored once.
\<close>

theorem sent_emails_stay_distinct_witness:
  "load_email_status NoDir = Inr \<lparr>last_index = 0, sent_emails = []\<rparr>
   \<and> distinct (sent_emails \<lparr>last_index = 0, sent_emails = []\<rparr>)
   \<and> map email (get_professor_data twin_rows) = [''a@x'', ''a@x'']
   \<and> load_email_status (stored (main world_ok twin_rows NoDir))
       = Inr \<lparr>last_index = 2, sent_emails = [''a@x'']\<rparr>
   \<and> (\<exists>st'. load_email_status (stored (main world_ok twin_rows NoDir)) = Inr st'
           \<and> distinct (sent_emails st'))"
proof -
  have h1: "load_email_status NoDir = Inr \<lparr>last_index = 0, sent_emails = []\<rparr>"
    by (simp add: load_email_status_def)
  have h2: "distinct (sent_emails \<lparr>last_index = 0, sent_emails = []\<rparr>)"
    by simp
  have twins: "map email (get_professor_data twin_rows) = [''a@x'', ''a@x'']"
    by (simp add: twin_rows_def)
  have run: "load_email_status (stored (main world_ok twin_rows NoDir))
       = Inr \<lparr>last_index = 2, sent_emails = [''a@x'']\<rparr>"
    by (simp add: main_def world_ok_def twin_rows_def load_email_status_def
      EMAILS_PER_DAY_def py_range_def upto.simps py_index_def try_send_def
      generate_email_content_def send_email_def read_cv_def save_email_status_def)
  from sent_emails_stay_distinct [OF h1 h2, of world_ok twin_rows] h1 h2 twins run
  show ?thesis by blast
qed

end
